theory Spec2Isabelle
  imports Main
begin

section \<open>Values, exceptions and the store\<close>

text \<open>
  The store returns the elements of a list as strings. A Python value that may be
  \<^verbatim>\<open>None\<close> is an option: \<open>None\<close> is Python's \<^verbatim>\<open>None\<close>, \<open>Some x\<close> any other object.
  The type variable \<open>'o\<close> stands for the objects the application handles (model
  instances, integers, strings), \<open>'c\<close> for connection handles.
\<close>

type_synonym raw = string

text \<open>
  The exceptions the code raises itself, and \<open>Raised\<close> for whatever a collaborator
  outside \<^verbatim>\<open>containers.py\<close> raises (the constructor of the target type, an attribute
  access).
\<close>

datatype 'x exc =
    ImportError
  | ValueError string
  | TypeError
  | Raised 'x

text \<open>
  The server's state, as far as lists go: the elements stored at each key. A key that
  holds nothing reads as the empty list (the server keeps no empty lists).
\<close>

type_synonym redis = "string \<Rightarrow> raw list"

text \<open>
  The list commands of the server, which the client library forwards one to one. They
  are not code of this repository; the definitions follow the server's documented
  behaviour. \<^verbatim>\<open>LRANGE\<close> takes offsets that are both inclusive, a negative offset counts
  from the tail, and offsets out of range are clipped.
\<close>

definition lrange :: "redis \<Rightarrow> string \<Rightarrow> int \<Rightarrow> int \<Rightarrow> raw list" where
  "lrange r k start stop =
     (let xs = r k;
          n = int (length xs);
          s1 = (if start < 0 then n + start else start);
          e1 = (if stop < 0 then n + stop else stop);
          s2 = (if s1 < 0 then 0 else s1)
      in if s2 > e1 \<or> s2 \<ge> n then []
         else let e2 = (if e1 \<ge> n then n - 1 else e1)
              in take (nat (e2 - s2 + 1)) (drop (nat s2) xs))"

definition llen :: "redis \<Rightarrow> string \<Rightarrow> int" where
  "llen r k = int (length (r k))"

text \<open>\<^verbatim>\<open>LINDEX\<close> answers nil, which the client hands over as \<^verbatim>\<open>None\<close>, out of range.\<close>

definition lindex :: "redis \<Rightarrow> string \<Rightarrow> int \<Rightarrow> raw option" where
  "lindex r k i =
     (let xs = r k;
          n = int (length xs);
          j = (if i < 0 then n + i else i)
      in if 0 \<le> j \<and> j < n then Some (xs ! nat j) else None)"

text \<open>
  \<^verbatim>\<open>RPUSH\<close> adds one element at the tail. The client encodes the Python value it is
  given as a string; \<open>encode\<close> is that encoding.
\<close>

definition rpush :: "('v \<Rightarrow> raw) \<Rightarrow> redis \<Rightarrow> string \<Rightarrow> 'v \<Rightarrow> redis" where
  "rpush encode r k v = r(k := r k @ [encode v])"

section \<open>Container\<close>

text \<open>
  \<^verbatim>\<open>Container.__init__\<close> stores \<^verbatim>\<open>_db\<close>, \<^verbatim>\<open>key\<close> and \<^verbatim>\<open>pipeline\<close>. The attribute
  \<^verbatim>\<open>db_cache\<close> does not exist until the \<^verbatim>\<open>db\<close> property sets it; the property treats
  an absent attribute and one that is \<^verbatim>\<open>None\<close> alike, so both are \<open>None\<close> here.
\<close>

record 'c container =
  key :: string
  db_field :: "'c option"
  pipeline :: "'c option"
  db_cache :: "'c option"

definition Container_init :: "string \<Rightarrow> 'c option \<Rightarrow> 'c option \<Rightarrow> 'c container" where
  "Container_init k db pl = \<lparr>key = k, db_field = db, pipeline = pl, db_cache = None\<rparr>"

text \<open>
  The \<^verbatim>\<open>db\<close> property. Its last branch runs \<^verbatim>\<open>from redisco import connection\<close>: the
  outcome of that import, at the moment the property runs, is the parameter
  \<open>connection\<close> (the value bound to the name in the package, or the exception of the
  import). The property returns the handle and may set \<^verbatim>\<open>db_cache\<close>, so the model
  returns the handle together with the container.
\<close>

definition Container_db ::
  "'x exc + 'c option \<Rightarrow> 'c container \<Rightarrow> 'x exc + ('c option \<times> 'c container)" where
  "Container_db connection self =
     (if pipeline self \<noteq> None then Inr (pipeline self, self)
      else if db_field self \<noteq> None then Inr (db_field self, self)
      else if db_cache self \<noteq> None then Inr (db_cache self, self)
      else (case connection of
              Inl e \<Rightarrow> Inl e
            | Inr conn \<Rightarrow> Inr (conn, self\<lparr>db_cache := conn\<rparr>)))"

section \<open>List\<close>

text \<open>
  The commands of \<^verbatim>\<open>DELEGATEABLE_METHODS\<close> are the handle's commands applied to the
  container's key. The operations below run against a direct connection, so that each
  command takes effect on the server state at once; that state is passed explicitly.
\<close>

definition List_all :: "'c container \<Rightarrow> redis \<Rightarrow> raw list" where
  "List_all self r = lrange r (key self) 0 (- 1)"

definition List_len :: "'c container \<Rightarrow> redis \<Rightarrow> int" where
  "List_len self r = llen r (key self)"

text \<open>
  An index is an \<^verbatim>\<open>int\<close>, a \<^verbatim>\<open>slice\<close> (each of start, stop and step an integer or
  \<^verbatim>\<open>None\<close>), or anything else.
\<close>

datatype pyindex =
    IntIndex int
  | SliceIndex "int option" "int option" "int option"
  | OtherIndex

text \<open>
  \<^verbatim>\<open>slice.indices(length)\<close> of the interpreter: a step of zero is refused, a bound that
  is \<^verbatim>\<open>None\<close> takes its default, a negative bound counts from the end, and bounds are
  clipped to the length.
\<close>

definition slice_bound :: "int \<Rightarrow> int \<Rightarrow> int \<Rightarrow> int option \<Rightarrow> int" where
  "slice_bound len step dflt b =
     (case b of
        None \<Rightarrow> dflt
      | Some v \<Rightarrow>
          (let v1 = (if v < 0 then v + len else v);
               v2 = (if v1 < 0 then (if step < 0 then - 1 else 0) else v1)
           in if v2 \<ge> len then (if step < 0 then len - 1 else len) else v2))"

definition slice_indices ::
  "int option \<Rightarrow> int option \<Rightarrow> int option \<Rightarrow> int \<Rightarrow> 'x exc + (int \<times> int \<times> int)" where
  "slice_indices start stop step len =
     (let st = (case step of None \<Rightarrow> 1 | Some s \<Rightarrow> s)
      in if st = 0 then Inl (ValueError ''slice step cannot be zero'')
         else Inr (slice_bound len st (if st < 0 then len - 1 else 0) start,
                   slice_bound len st (if st < 0 then - 1 else len) stop,
                   st))"

text \<open>What an indexed read returns: one element for an integer, a list for a slice.\<close>

datatype ('a, 'b) fetched = Item 'a | Items "'b list"

definition List_getitem ::
  "'c container \<Rightarrow> redis \<Rightarrow> pyindex \<Rightarrow> 'x exc + (raw option, raw) fetched" where
  "List_getitem self r index =
     (case index of
        IntIndex i \<Rightarrow> Inr (Item (lindex r (key self) i))
      | SliceIndex a b s \<Rightarrow>
          (case slice_indices a b s (List_len self r) of
             Inl e \<Rightarrow> Inl e
           | Inr (i0, i1, i2) \<Rightarrow> Inr (Items (lrange r (key self) i0 i1)))
      | OtherIndex \<Rightarrow> Inl TypeError)"

definition List_append :: "('v \<Rightarrow> raw) \<Rightarrow> 'c container \<Rightarrow> redis \<Rightarrow> 'v \<Rightarrow> redis" where
  "List_append encode self r v = rpush encode r (key self) v"

text \<open>
  \<^verbatim>\<open>List.extend\<close> maps \<^verbatim>\<open>rpush\<close> over the iterable (the \<^verbatim>\<open>map\<close> of Python 2 runs at
  once, from left to right).
\<close>

fun List_extend :: "('v \<Rightarrow> raw) \<Rightarrow> 'c container \<Rightarrow> redis \<Rightarrow> 'v list \<Rightarrow> redis" where
  "List_extend encode self r [] = r"
| "List_extend encode self r (i # iterable) =
     List_extend encode self (rpush encode r (key self) i) iterable"

section \<open>TypedList\<close>

text \<open>
  A target type, as far as \<^verbatim>\<open>TypedList\<close> uses it: whether it is a subclass of
  \<^verbatim>\<open>Model\<close>, its \<^verbatim>\<open>objects.get_by_id\<close>, and the call of the class on a value with extra
  positional and keyword arguments. \<^verbatim>\<open>models.base\<close> is not among the sources, so the
  three are parameters. \<^verbatim>\<open>get_by_id\<close> answers an instance or \<^verbatim>\<open>None\<close>.
\<close>

record ('x, 'o) pyclass =
  issubclass_Model :: bool
  objects_get_by_id :: "raw option \<Rightarrow> 'o option"
  construct :: "raw option \<Rightarrow> 'o option list \<Rightarrow> (string \<times> 'o option) list \<Rightarrow> 'x exc + 'o option"

datatype ('x, 'o) target = TypeName string | TypeObject "('x, 'o) pyclass"

record ('x, 'o, 'c) typed_list =
  list :: "'c container"
  klass :: "('x, 'o) pyclass"
  klass_args :: "'o option list"
  klass_kwargs :: "(string \<times> 'o option) list"
  redisco_model :: bool

text \<open>
  \<^verbatim>\<open>value_type\<close>. \<^verbatim>\<open>get_model_from_key\<close> of \<^verbatim>\<open>models.base\<close> is a parameter. Besides its
  result the model returns the names it asked the registry for, in order.
\<close>

definition value_type ::
  "(string \<Rightarrow> ('x, 'o) pyclass option) \<Rightarrow> ('x, 'o) target
     \<Rightarrow> string list \<times> ('x exc + ('x, 'o) pyclass)" where
  "value_type get_model_from_key target_type =
     (case target_type of
        TypeName t \<Rightarrow>
          (case get_model_from_key t of
             None \<Rightarrow> ([t], Inl (ValueError (''Unknown Redisco class '' @ t)))
           | Some c \<Rightarrow> ([t], Inr c))
      | TypeObject c \<Rightarrow> ([], Inr c))"

definition TypedList_init ::
  "(string \<Rightarrow> ('x, 'o) pyclass option) \<Rightarrow> string \<Rightarrow> ('x, 'o) target \<Rightarrow> 'o option list
     \<Rightarrow> (string \<times> 'o option) list \<Rightarrow> 'c option \<Rightarrow> 'c option
     \<Rightarrow> string list \<times> ('x exc + ('x, 'o, 'c) typed_list)" where
  "TypedList_init get_model_from_key k target_type type_args type_kwargs db pl =
     (let l = Container_init k db pl
      in case value_type get_model_from_key target_type of
           (asked, Inl e) \<Rightarrow> (asked, Inl e)
         | (asked, Inr c) \<Rightarrow>
             (asked, Inr \<lparr>list = l, klass = c, klass_args = type_args,
                          klass_kwargs = type_kwargs,
                          redisco_model = issubclass_Model c\<rparr>))"

definition typecast_item ::
  "('x, 'o, 'c) typed_list \<Rightarrow> raw option \<Rightarrow> 'x exc + 'o option" where
  "typecast_item self v =
     (if redisco_model self then Inr (objects_get_by_id (klass self) v)
      else construct (klass self) v (klass_args self) (klass_kwargs self))"

text \<open>
  A list comprehension (and the \<^verbatim>\<open>map\<close> of Python 2) over a function that may raise:
  the elements are computed from left to right and the first exception ends it.
\<close>

fun comprehension :: "('a \<Rightarrow> 'e + 'b) \<Rightarrow> 'a list \<Rightarrow> 'e + 'b list" where
  "comprehension f [] = Inr []"
| "comprehension f (v # vs) =
     (case f v of
        Inl e \<Rightarrow> Inl e
      | Inr y \<Rightarrow> (case comprehension f vs of Inl e \<Rightarrow> Inl e | Inr ys \<Rightarrow> Inr (y # ys)))"

definition typecast_iter ::
  "('x, 'o, 'c) typed_list \<Rightarrow> raw list \<Rightarrow> 'x exc + 'o option list" where
  "typecast_iter self vs =
     (if redisco_model self
      then Inr (filter (\<lambda>obj. obj \<noteq> None) (map (\<lambda>v. objects_get_by_id (klass self) (Some v)) vs))
      else comprehension
             (\<lambda>v. construct (klass self) (Some v) (klass_args self) (klass_kwargs self)) vs)"

definition TypedList_all :: "('x, 'o, 'c) typed_list \<Rightarrow> redis \<Rightarrow> 'x exc + 'o option list" where
  "TypedList_all self r = typecast_iter self (List_all (list self) r)"

definition TypedList_len :: "('x, 'o, 'c) typed_list \<Rightarrow> redis \<Rightarrow> int" where
  "TypedList_len self r = List_len (list self) r"

text \<open>
  \<^verbatim>\<open>TypedList.__getitem__\<close> casts a slice's list with \<^verbatim>\<open>typecast_iter\<close> and anything
  else with \<^verbatim>\<open>typecast_item\<close>. \<open>List_getitem\<close> answers \<open>Items\<close> exactly for a slice,
  so the model tells the two by what was read.
\<close>

definition TypedList_getitem ::
  "('x, 'o, 'c) typed_list \<Rightarrow> redis \<Rightarrow> pyindex \<Rightarrow> 'x exc + ('o option, 'o option) fetched" where
  "TypedList_getitem self r index =
     (case List_getitem (list self) r index of
        Inl e \<Rightarrow> Inl e
      | Inr (Items vs) \<Rightarrow>
          (case typecast_iter self vs of Inl e \<Rightarrow> Inl e | Inr ys \<Rightarrow> Inr (Items ys))
      | Inr (Item v) \<Rightarrow>
          (case typecast_item self v of Inl e \<Rightarrow> Inl e | Inr y \<Rightarrow> Inr (Item y)))"

text \<open>
  \<^verbatim>\<open>typecast_stor\<close> reads \<^verbatim>\<open>value.id\<close> of a model instance; the attribute access is the
  parameter \<open>getattr_id\<close>, which raises for a value that has no such attribute.
\<close>

definition typecast_stor ::
  "('o option \<Rightarrow> 'x exc + 'o option) \<Rightarrow> ('x, 'o, 'c) typed_list \<Rightarrow> 'o option
     \<Rightarrow> 'x exc + 'o option" where
  "typecast_stor getattr_id self v = (if redisco_model self then getattr_id v else Inr v)"

definition TypedList_append ::
  "('o option \<Rightarrow> 'x exc + 'o option) \<Rightarrow> ('o option \<Rightarrow> raw) \<Rightarrow> ('x, 'o, 'c) typed_list
     \<Rightarrow> redis \<Rightarrow> 'o option \<Rightarrow> 'x exc + redis" where
  "TypedList_append getattr_id encode self r v =
     (case typecast_stor getattr_id self v of
        Inl e \<Rightarrow> Inl e
      | Inr w \<Rightarrow> Inr (List_append encode (list self) r w))"

definition TypedList_extend ::
  "('o option \<Rightarrow> 'x exc + 'o option) \<Rightarrow> ('o option \<Rightarrow> raw) \<Rightarrow> ('x, 'o, 'c) typed_list
     \<Rightarrow> redis \<Rightarrow> 'o option list \<Rightarrow> 'x exc + redis" where
  "TypedList_extend getattr_id encode self r iter =
     (case comprehension (typecast_stor getattr_id self) iter of
        Inl e \<Rightarrow> Inl e
      | Inr ws \<Rightarrow> Inr (List_extend encode (list self) r ws))"

text \<open>
  A generator that yields \<open>f i\<close> for each \<open>i\<close> of a range: what it yielded, and the
  exception that ended it, if one did.
\<close>

fun generate :: "('a \<Rightarrow> 'e + 'b) \<Rightarrow> 'a list \<Rightarrow> 'b list \<times> 'e option" where
  "generate f [] = ([], None)"
| "generate f (i # is) =
     (case f i of
        Inl e \<Rightarrow> ([], Some e)
      | Inr y \<Rightarrow> (case generate f is of (ys, ex) \<Rightarrow> (y # ys, ex)))"

text \<open>
  \<^verbatim>\<open>TypedList.__iter__\<close>, consumed to its end while the list stays as it is:
  \<^verbatim>\<open>xrange(len(self.list))\<close> is computed once, then \<^verbatim>\<open>self[i]\<close> is read for each index.
\<close>

definition TypedList_iter ::
  "('x, 'o, 'c) typed_list \<Rightarrow> redis
     \<Rightarrow> ('o option, 'o option) fetched list \<times> 'x exc option" where
  "TypedList_iter self r =
     generate (\<lambda>i. TypedList_getitem self r (IntIndex (int i)))
       [0 ..< nat (List_len (list self) r)]"

section \<open>Example instances\<close>

text \<open>
  Objects for the examples: model instances, which carry their identifier, strings and
  integers.
\<close>

datatype obj = Entity string | Str string | Num int

text \<open>
  A model class whose registry knows the identifiers \<open>a\<close> and \<open>c\<close> and nothing else, and a
  plain target type that casts the strings \<open>1\<close> to \<open>4\<close> to integers and raises for
  every other value.
\<close>

definition ex_model :: "(string, obj) pyclass" where
  "ex_model =
     \<lparr>issubclass_Model = True,
      objects_get_by_id =
        (\<lambda>v. if v = Some ''a'' then Some (Entity ''a'')
             else if v = Some ''c'' then Some (Entity ''c'') else None),
      construct = (\<lambda>v args kwargs. Inl TypeError)\<rparr>"

definition ex_int :: "(string, obj) pyclass" where
  "ex_int =
     \<lparr>issubclass_Model = False,
      objects_get_by_id = (\<lambda>v. None),
      construct =
        (\<lambda>v args kwargs.
           if v = Some ''1'' then Inr (Some (Num 1))
           else if v = Some ''2'' then Inr (Some (Num 2))
           else if v = Some ''3'' then Inr (Some (Num 3))
           else if v = Some ''4'' then Inr (Some (Num 4))
           else Inl (ValueError ''invalid literal for int()''))\<rparr>"

definition ex_getattr_id :: "obj option \<Rightarrow> string exc + obj option" where
  "ex_getattr_id v =
     (case v of Some (Entity i) \<Rightarrow> Inr (Some (Str i)) | _ \<Rightarrow> Inl (Raised ''AttributeError''))"

definition ex_encode :: "obj option \<Rightarrow> raw" where
  "ex_encode v =
     (case v of
        Some (Str s) \<Rightarrow> s
      | Some (Num n) \<Rightarrow>
          (if n = 1 then ''1'' else if n = 2 then ''2'' else if n = 3 then ''3''
           else if n = 4 then ''4'' else ''?'')
      | _ \<Rightarrow> ''None'')"

definition ex_entities :: "(string, obj, nat) typed_list" where
  "ex_entities =
     \<lparr>list = Container_init ''k'' (Some 0) None, klass = ex_model, klass_args = [],
      klass_kwargs = [], redisco_model = True\<rparr>"

definition ex_numbers :: "(string, obj, nat) typed_list" where
  "ex_numbers =
     \<lparr>list = Container_init ''k'' (Some 0) None, klass = ex_int, klass_args = [],
      klass_kwargs = [], redisco_model = False\<rparr>"

definition ex_registry :: "string \<Rightarrow> (string, obj) pyclass option" where
  "ex_registry n = (if n = ''Person'' then Some ex_model else None)"

definition store_abc :: redis where
  "store_abc = (\<lambda>k. [])(''k'' := [''a'', ''b'', ''c''])"

definition store_ac :: redis where
  "store_ac = (\<lambda>k. [])(''k'' := [''a'', ''c''])"

definition store_123 :: redis where
  "store_123 = (\<lambda>k. [])(''k'' := [''1'', ''2'', ''3''])"

definition store_1x3 :: redis where
  "store_1x3 = (\<lambda>k. [])(''k'' := [''1'', ''x'', ''3''])"

section \<open>The store commands and the examples\<close>

lemma lrange_all: "lrange r k 0 (- 1) = r k"
  by (simp add: lrange_def Let_def)

lemma List_all_eq: "List_all self r = r (key self)"
  by (simp add: List_all_def lrange_all)

lemma lindex_nth: "i < length (r k) \<Longrightarrow> lindex r k (int i) = Some (r k ! i)"
  by (simp add: lindex_def Let_def)

lemma lrange_inclusive:
  "0 \<le> a \<Longrightarrow> a \<le> b \<Longrightarrow> b < int (length (r k)) \<Longrightarrow>
   lrange r k a b = take (nat (b - a + 1)) (drop (nat a) (r k))"
  by (simp add: lrange_def Let_def)

text \<open>
  \<open>List_getitem\<close> answers a list exactly when the index is a slice, which is the test
  \<^verbatim>\<open>isinstance(index, slice)\<close> of \<^verbatim>\<open>TypedList.__getitem__\<close>.
\<close>

lemma List_getitem_shape:
  "List_getitem self r index = Inr (Items vs) \<Longrightarrow> \<exists>a b s. index = SliceIndex a b s"
  "List_getitem self r index = Inr (Item v) \<Longrightarrow> \<exists>i. index = IntIndex i"
  by (cases index; auto simp: List_getitem_def split: sum.splits)+

lemma ex_entities_simps:
  "redisco_model ex_entities" "key (list ex_entities) = ''k''" "klass ex_entities = ex_model"
  by (simp_all add: ex_entities_def Container_init_def)

lemma ex_numbers_simps:
  "\<not> redisco_model ex_numbers" "key (list ex_numbers) = ''k''" "klass ex_numbers = ex_int"
  "klass_args ex_numbers = []" "klass_kwargs ex_numbers = []"
  by (simp_all add: ex_numbers_def Container_init_def)

lemma ex_model_get:
  "objects_get_by_id ex_model (Some ''a'') = Some (Entity ''a'')"
  "objects_get_by_id ex_model (Some ''b'') = None"
  "objects_get_by_id ex_model (Some ''c'') = Some (Entity ''c'')"
  by (simp_all add: ex_model_def)

lemma store_abc_k: "store_abc ''k'' = [''a'', ''b'', ''c'']"
  by (simp add: store_abc_def)

lemma ex_all_abc: "TypedList_all ex_entities store_abc = Inr [Some (Entity ''a''), Some (Entity ''c'')]"
  by (simp add: TypedList_all_def typecast_iter_def List_all_eq ex_entities_simps store_abc_k ex_model_get)

section \<open>Length\<close>

text \<open>
  C7. In every mode and every state of the list, \<^verbatim>\<open>len(proxy)\<close> is the length of the
  wrapped \<^verbatim>\<open>List\<close>, which is what \<^verbatim>\<open>LLEN\<close> answers: the number of stored elements,
  whatever their type and however many identifiers fail to resolve. In the example three
  identifiers are stored and \<^verbatim>\<open>all()\<close> has two elements.
\<close>

theorem TypedList_len_read_length:
  "TypedList_len self r = List_len (list self) r
   \<and> List_len (list self) r = llen r (key (list self))
   \<and> llen r (key (list self)) = int (length (r (key (list self))))
   \<and> TypedList_len ex_entities store_abc = 3
   \<and> TypedList_all ex_entities store_abc = Inr [Some (Entity ''a''), Some (Entity ''c'')]"
  by (simp add: TypedList_len_def List_len_def llen_def ex_all_abc ex_entities_simps store_abc_k)

section \<open>Indexed read of an identifier that does not resolve\<close>

text \<open>
  C2. In model mode, an integer index whose stored identifier \<^verbatim>\<open>get_by_id\<close> does not
  resolve reads as \<^verbatim>\<open>None\<close>, the registry's answer, for that one position: nothing is
  raised and nothing is dropped.
\<close>

theorem getitem_unresolved:
  assumes "redisco_model self"
    and "lindex r (key (list self)) i = Some v"
    and "objects_get_by_id (klass self) (Some v) = None"
  shows "TypedList_getitem self r (IntIndex i) = Inr (Item None)"
  using assms by (simp add: TypedList_getitem_def List_getitem_def typecast_item_def)

theorem getitem_unresolved_witness:
  "redisco_model ex_entities
   \<and> lindex store_abc (key (list ex_entities)) 1 = Some ''b''
   \<and> objects_get_by_id (klass ex_entities) (Some ''b'') = None
   \<and> TypedList_getitem ex_entities store_abc (IntIndex 1) = Inr (Item None)"
proof -
  have a: "redisco_model ex_entities" by (simp add: ex_entities_simps)
  have b: "lindex store_abc (key (list ex_entities)) 1 = Some ''b''"
    by (simp add: lindex_def ex_entities_simps store_abc_k)
  have c: "objects_get_by_id (klass ex_entities) (Some ''b'') = None"
    by (simp add: ex_entities_simps ex_model_get)
  from getitem_unresolved [OF a b c] a b c show ?thesis by simp
qed

section \<open>Construction\<close>

text \<open>
  C6. Constructing a \<^verbatim>\<open>TypedList\<close> with a name the registry does not know raises the
  \<^verbatim>\<open>ValueError\<close> of \<^verbatim>\<open>value_type\<close> from the constructor, which does not take the
  store and so reads no element. A name the registry knows is asked for once, and the
  class it answers is kept in the object; no other operation takes the registry.
\<close>

theorem unknown_type_at_construction:
  "(get_model_from_key n = None \<longrightarrow>
      TypedList_init get_model_from_key k (TypeName n) type_args type_kwargs db pl
        = ([n], Inl (ValueError (''Unknown Redisco class '' @ n))))
   \<and> (get_model_from_key n = Some c \<longrightarrow>
      TypedList_init get_model_from_key k (TypeName n) type_args type_kwargs db pl
        = ([n], Inr \<lparr>list = Container_init k db pl, klass = c, klass_args = type_args,
                     klass_kwargs = type_kwargs, redisco_model = issubclass_Model c\<rparr>))"
  by (simp add: TypedList_init_def value_type_def)

theorem unknown_type_at_construction_witness:
  "ex_registry ''Nope'' = None
   \<and> TypedList_init ex_registry ''k'' (TypeName ''Nope'') [] [] (Some (0::nat)) None
        = ([''Nope''], Inl (ValueError ''Unknown Redisco class Nope''))
   \<and> ex_registry ''Person'' = Some ex_model
   \<and> TypedList_init ex_registry ''k'' (TypeName ''Person'') [] [] (Some (0::nat)) None
        = ([''Person''], Inr ex_entities)"
proof -
  have a: "ex_registry ''Nope'' = None" by (simp add: ex_registry_def)
  have b: "ex_registry ''Person'' = Some ex_model" by (simp add: ex_registry_def)
  have m: "issubclass_Model ex_model" by (simp add: ex_model_def)
  from unknown_type_at_construction
         [where get_model_from_key = ex_registry and n = "''Nope''" and k = "''k''"
            and type_args = "[]" and type_kwargs = "[]" and db = "Some (0::nat)" and pl = None]
       unknown_type_at_construction
         [where get_model_from_key = ex_registry and n = "''Person''" and c = ex_model
            and k = "''k''" and type_args = "[]" and type_kwargs = "[]"
            and db = "Some (0::nat)" and pl = None]
       a b m
  show ?thesis by (simp add: ex_entities_def)
qed

section \<open>The execution context\<close>

text \<open>
  C9. The \<^verbatim>\<open>db\<close> property answers the pipeline when there is one, else the connection
  given at construction when there is one, else the handle cached on the instance; with
  none of the three it imports the default connection, caches it on the instance, and
  every later call answers the cached handle whatever the import would then give. The
  constructor caches nothing.
\<close>

theorem db_precedence:
  "(pipeline self = Some p \<longrightarrow> Container_db connection self = Inr (Some p, self))
   \<and> (pipeline self = None \<and> db_field self = Some d \<longrightarrow>
        Container_db connection self = Inr (Some d, self))
   \<and> (pipeline self = None \<and> db_field self = None \<and> db_cache self = Some h \<longrightarrow>
        Container_db connection self = Inr (Some h, self))
   \<and> (pipeline self = None \<and> db_field self = None \<and> db_cache self = None
        \<and> connection = Inr (Some g) \<longrightarrow>
        Container_db connection self = Inr (Some g, self\<lparr>db_cache := Some g\<rparr>)
        \<and> Container_db later (self\<lparr>db_cache := Some g\<rparr>)
            = Inr (Some g, self\<lparr>db_cache := Some g\<rparr>))
   \<and> db_cache (Container_init k db pl) = None"
  by (simp add: Container_db_def Container_init_def)

theorem db_precedence_witness:
  "pipeline (Container_init ''k'' (Some (1::nat)) (Some 2)) = Some 2
   \<and> Container_db (Inl ImportError :: string exc + nat option)
        (Container_init ''k'' (Some 1) (Some 2))
        = Inr (Some 2, Container_init ''k'' (Some 1) (Some 2))
   \<and> Container_db (Inl ImportError :: string exc + nat option)
        (Container_init ''k'' (Some 1) None)
        = Inr (Some 1, Container_init ''k'' (Some 1) None)
   \<and> Container_db (Inl ImportError :: string exc + nat option)
        ((Container_init ''k'' None None)\<lparr>db_cache := Some 3\<rparr>)
        = Inr (Some 3, (Container_init ''k'' None None)\<lparr>db_cache := Some 3\<rparr>)
   \<and> Container_db (Inr (Some 4) :: string exc + nat option) (Container_init ''k'' None None)
        = Inr (Some 4, (Container_init ''k'' None None)\<lparr>db_cache := Some 4\<rparr>)
   \<and> Container_db (Inl ImportError :: string exc + nat option)
        ((Container_init ''k'' None None)\<lparr>db_cache := Some 4\<rparr>)
        = Inr (Some 4, (Container_init ''k'' None None)\<lparr>db_cache := Some 4\<rparr>)"
proof -
  have i: "pipeline (Container_init ''k'' (Some (1::nat)) (Some 2)) = Some 2"
          "pipeline (Container_init ''k'' (Some (1::nat)) None) = None"
          "db_field (Container_init ''k'' (Some (1::nat)) None) = Some 1"
          "pipeline (Container_init ''k'' (None :: nat option) None) = None"
          "db_field (Container_init ''k'' (None :: nat option) None) = None"
          "db_cache (Container_init ''k'' (None :: nat option) None) = None"
    by (simp_all add: Container_init_def)
  from db_precedence
         [where self = "Container_init ''k'' (Some (1::nat)) (Some 2)" and p = 2
            and connection = "Inl ImportError :: string exc + nat option"
            and k = "''k''" and db = "None :: nat option" and pl = None]
       db_precedence
         [where self = "Container_init ''k'' (Some (1::nat)) None" and d = 1
            and connection = "Inl ImportError :: string exc + nat option"
            and k = "''k''" and db = "None :: nat option" and pl = None]
       db_precedence
         [where self = "(Container_init ''k'' None None)\<lparr>db_cache := Some (3::nat)\<rparr>"
            and h = 3 and connection = "Inl ImportError :: string exc + nat option"
            and k = "''k''" and db = "None :: nat option" and pl = None]
       db_precedence
         [where self = "Container_init ''k'' (None :: nat option) None" and g = 4
            and connection = "Inr (Some 4) :: string exc + nat option"
            and later = "Inl ImportError :: string exc + nat option"
            and k = "''k''" and db = "None :: nat option" and pl = None]
       i
  show ?thesis by simp
qed

text \<open>
  When the import of the default connection raises (as it does while the package binds
  no name \<^verbatim>\<open>connection\<close>; \<^verbatim>\<open>redisco/__init__.py\<close> itself defines \<^verbatim>\<open>get_client\<close> only),
  the property raises the same exception and caches nothing.
\<close>

lemma Container_db_import_fails:
  "pipeline self = None \<Longrightarrow> db_field self = None \<Longrightarrow> db_cache self = None \<Longrightarrow>
   Container_db (Inl e) self = Inl e"
  by (simp add: Container_db_def)


section \<open>Bulk reads\<close>

lemma TypedList_all_model:
  "redisco_model self \<Longrightarrow>
   TypedList_all self r =
     Inr (filter (\<lambda>obj. obj \<noteq> None)
           (map (\<lambda>v. objects_get_by_id (klass self) (Some v)) (r (key (list self)))))"
  by (simp add: TypedList_all_def typecast_iter_def List_all_eq)

lemma TypedList_all_plain:
  "\<not> redisco_model self \<Longrightarrow>
   TypedList_all self r =
     comprehension (\<lambda>v. construct (klass self) (Some v) (klass_args self) (klass_kwargs self))
       (r (key (list self)))"
  by (simp add: TypedList_all_def typecast_iter_def List_all_eq)

lemma filter_map_keeps:
  "\<forall>v \<in> set vs. g v \<noteq> None \<Longrightarrow> filter (\<lambda>obj. obj \<noteq> None) (map g vs) = map g vs"
  by (induction vs) auto

lemma take_drop_positions:
  assumes "i < length ids" and "\<forall>j < length ids. j \<noteq> i \<longrightarrow> P (ids ! j)"
  shows "\<forall>v \<in> set (take i ids @ drop (Suc i) ids). P v"
proof
  fix v assume "v \<in> set (take i ids @ drop (Suc i) ids)"
  then consider "v \<in> set (take i ids)" | "v \<in> set (drop (Suc i) ids)" by auto
  then show "P v"
  proof cases
    case 1
    then obtain j where "j < i" "j < length ids" "v = ids ! j"
      by (auto simp: in_set_conv_nth)
    with assms show ?thesis by auto
  next
    case 2
    then obtain j where "j < length ids - Suc i" "v = drop (Suc i) ids ! j"
      by (auto simp: in_set_conv_nth)
    then have "Suc i + j < length ids" "v = ids ! (Suc i + j)" by auto
    with assms show ?thesis by auto
  qed
qed

text \<open>
  C1. In model mode, when exactly one of the \<open>n\<close> stored identifiers does not resolve,
  \<^verbatim>\<open>all()\<close> raises nothing and returns the entities of the other \<open>n - 1\<close> identifiers, in
  the order in which they are stored.
\<close>

theorem all_drops_the_unresolved:
  assumes "redisco_model self"
    and "ids = r (key (list self))"
    and "i < length ids"
    and "objects_get_by_id (klass self) (Some (ids ! i)) = None"
    and "\<forall>j < length ids. j \<noteq> i \<longrightarrow> objects_get_by_id (klass self) (Some (ids ! j)) \<noteq> None"
  shows "TypedList_all self r =
           Inr (map (\<lambda>v. objects_get_by_id (klass self) (Some v)) (take i ids @ drop (Suc i) ids))
         \<and> length (take i ids @ drop (Suc i) ids) = length ids - 1
         \<and> (\<forall>v \<in> set (take i ids @ drop (Suc i) ids).
               objects_get_by_id (klass self) (Some v) \<noteq> None)"
proof -
  let ?g = "\<lambda>v. objects_get_by_id (klass self) (Some v)"
  let ?rest = "take i ids @ drop (Suc i) ids"
  have rest: "\<forall>v \<in> set ?rest. ?g v \<noteq> None"
    using take_drop_positions [of i ids "\<lambda>v. ?g v \<noteq> None"] assms(3,5) by simp
  then have l: "\<forall>v \<in> set (take i ids). ?g v \<noteq> None"
    and d: "\<forall>v \<in> set (drop (Suc i) ids). ?g v \<noteq> None" by auto
  have split: "ids = take i ids @ ids ! i # drop (Suc i) ids"
    using assms(3) by (simp add: id_take_nth_drop)
  have "filter (\<lambda>obj. obj \<noteq> None) (map ?g ids)
        = filter (\<lambda>obj. obj \<noteq> None) (map ?g (take i ids @ ids ! i # drop (Suc i) ids))"
    using split by simp
  also have "\<dots> = filter (\<lambda>obj. obj \<noteq> None) (map ?g (take i ids))
                   @ filter (\<lambda>obj. obj \<noteq> None) (map ?g (drop (Suc i) ids))"
    using assms(4) by simp
  also have "\<dots> = map ?g ?rest"
    using filter_map_keeps [OF l] filter_map_keeps [OF d] by simp
  finally have "filter (\<lambda>obj. obj \<noteq> None) (map ?g ids) = map ?g ?rest" .
  then have a: "TypedList_all self r = Inr (map ?g ?rest)"
    using assms(1,2) by (simp add: TypedList_all_model)
  have b: "length ?rest = length ids - 1" using assms(3) by simp
  from a b rest show ?thesis by blast
qed

theorem all_drops_the_unresolved_witness:
  "redisco_model ex_entities
   \<and> (1::nat) < length (store_abc (key (list ex_entities)))
   \<and> objects_get_by_id (klass ex_entities) (Some (store_abc (key (list ex_entities)) ! 1)) = None
   \<and> TypedList_all ex_entities store_abc = Inr [Some (Entity ''a''), Some (Entity ''c'')]"
proof -
  let ?ids = "[''a'', ''b'', ''c'']"
  have k: "?ids = store_abc (key (list ex_entities))"
    by (simp add: ex_entities_simps store_abc_k)
  have m: "redisco_model ex_entities" by (simp add: ex_entities_simps)
  have i: "(1::nat) < length ?ids" by simp
  have n: "objects_get_by_id (klass ex_entities) (Some (?ids ! 1)) = None"
    by (simp add: ex_entities_simps ex_model_get)
  have o: "\<forall>j < length ?ids. j \<noteq> 1 \<longrightarrow>
             objects_get_by_id (klass ex_entities) (Some (?ids ! j)) \<noteq> None"
    by (simp add: ex_entities_simps ex_model_get less_Suc_eq nth_Cons' numeral_3_eq_3)
  from all_drops_the_unresolved
         [where self = ex_entities and r = store_abc and ids = ?ids and i = 1, OF m k i n o]
       m i n
  show ?thesis by (simp add: ex_entities_simps ex_model_get store_abc_k)
qed

lemma comprehension_Inr:
  "\<forall>v \<in> set vs. f v = Inr (g v) \<Longrightarrow> comprehension f vs = Inr (map g vs)"
  by (induction vs) auto

lemma comprehension_Inl:
  "\<forall>u \<in> set pre. \<exists>y. f u = Inr y \<Longrightarrow> f v = Inl e \<Longrightarrow>
   comprehension f (pre @ v # post) = Inl e"
  by (induction pre) auto

text \<open>
  C4. In plain mode \<^verbatim>\<open>all()\<close> calls the target type on each stored value with the extra
  arguments, in the order of the list, and returns the results in that order; when a
  call raises, \<^verbatim>\<open>all()\<close> raises that same exception (the one of the first value whose
  call raises).
\<close>

theorem all_casts_in_order:
  assumes "\<not> redisco_model self"
  shows "((\<forall>v \<in> set (r (key (list self))).
             construct (klass self) (Some v) (klass_args self) (klass_kwargs self) = Inr (g v))
          \<longrightarrow> TypedList_all self r = Inr (map g (r (key (list self)))))
       \<and> (r (key (list self)) = pre @ v # post
            \<and> (\<forall>u \<in> set pre. \<exists>y.
                  construct (klass self) (Some u) (klass_args self) (klass_kwargs self) = Inr y)
            \<and> construct (klass self) (Some v) (klass_args self) (klass_kwargs self) = Inl e
          \<longrightarrow> TypedList_all self r = Inl e)"
  using assms
  by (simp add: TypedList_all_plain comprehension_Inr comprehension_Inl)


lemma ex_int_construct:
  "construct ex_int (Some ''1'') [] [] = Inr (Some (Num 1))"
  "construct ex_int (Some ''2'') [] [] = Inr (Some (Num 2))"
  "construct ex_int (Some ''3'') [] [] = Inr (Some (Num 3))"
  "construct ex_int (Some ''4'') [] [] = Inr (Some (Num 4))"
  "construct ex_int (Some ''x'') [] [] = Inl (ValueError ''invalid literal for int()'')"
  by (simp_all add: ex_int_def)

lemma store_123_k: "store_123 ''k'' = [''1'', ''2'', ''3'']"
  by (simp add: store_123_def)

lemma store_1x3_k: "store_1x3 ''k'' = [''1'', ''x'', ''3'']"
  by (simp add: store_1x3_def)

theorem all_casts_in_order_witness:
  "\<not> redisco_model ex_numbers
   \<and> construct (klass ex_numbers) (Some ''1'') (klass_args ex_numbers) (klass_kwargs ex_numbers)
       = Inr (Some (Num 1))
   \<and> construct (klass ex_numbers) (Some ''2'') (klass_args ex_numbers) (klass_kwargs ex_numbers)
       = Inr (Some (Num 2))
   \<and> construct (klass ex_numbers) (Some ''3'') (klass_args ex_numbers) (klass_kwargs ex_numbers)
       = Inr (Some (Num 3))
   \<and> construct (klass ex_numbers) (Some ''x'') (klass_args ex_numbers) (klass_kwargs ex_numbers)
       = Inl (ValueError ''invalid literal for int()'')
   \<and> store_123 (key (list ex_numbers)) = [''1'', ''2'', ''3'']
   \<and> TypedList_all ex_numbers store_123 = Inr [Some (Num 1), Some (Num 2), Some (Num 3)]
   \<and> store_1x3 (key (list ex_numbers)) = [''1''] @ ''x'' # [''3'']
   \<and> TypedList_all ex_numbers store_1x3 = Inl (ValueError ''invalid literal for int()'')"
proof -
  let ?g = "\<lambda>v. if v = ''1'' then Some (Num 1) else if v = ''2'' then Some (Num 2)
                 else Some (Num 3)"
  have p: "\<not> redisco_model ex_numbers" by (simp add: ex_numbers_simps)
  have c: "construct (klass ex_numbers) (Some ''1'') (klass_args ex_numbers)
             (klass_kwargs ex_numbers) = Inr (Some (Num 1))"
          "construct (klass ex_numbers) (Some ''2'') (klass_args ex_numbers)
             (klass_kwargs ex_numbers) = Inr (Some (Num 2))"
          "construct (klass ex_numbers) (Some ''3'') (klass_args ex_numbers)
             (klass_kwargs ex_numbers) = Inr (Some (Num 3))"
          "construct (klass ex_numbers) (Some ''x'') (klass_args ex_numbers)
             (klass_kwargs ex_numbers) = Inl (ValueError ''invalid literal for int()'')"
    by (simp_all add: ex_numbers_simps ex_int_construct)
  have s: "store_123 (key (list ex_numbers)) = [''1'', ''2'', ''3'']"
          "store_1x3 (key (list ex_numbers)) = [''1''] @ ''x'' # [''3'']"
    by (simp_all add: ex_numbers_simps store_123_k store_1x3_k)
  have ok: "\<forall>v \<in> set (store_123 (key (list ex_numbers))).
              construct (klass ex_numbers) (Some v) (klass_args ex_numbers)
                (klass_kwargs ex_numbers) = Inr (?g v)"
    using c by (simp add: s)
  have pre: "\<forall>u \<in> set [''1'']. \<exists>y.
               construct (klass ex_numbers) (Some u) (klass_args ex_numbers)
                 (klass_kwargs ex_numbers) = Inr y"
    using c by simp
  have a: "TypedList_all ex_numbers store_123 = Inr (map ?g (store_123 (key (list ex_numbers))))"
    using all_casts_in_order [OF p, where r = store_123 and g = ?g] ok by blast
  have b: "TypedList_all ex_numbers store_1x3 = Inl (ValueError ''invalid literal for int()'')"
    using all_casts_in_order
            [OF p, where r = store_1x3 and pre = "[''1'']" and v = "''x''" and post = "[''3'']"
               and e = "ValueError ''invalid literal for int()''"]
          s(2) pre c(4) by blast
  from a b p c s show ?thesis by simp
qed

section \<open>Iteration\<close>

lemma generate_cong:
  "\<forall>x \<in> set xs. f x = g x \<Longrightarrow> generate f xs = generate g xs"
  by (induction xs) (auto split: sum.splits)

lemma generate_map: "generate f (map h xs) = generate (\<lambda>x. f (h x)) xs"
  by (induction xs) (auto split: sum.splits prod.splits)

lemma generate_Inr:
  "\<forall>x \<in> set xs. f x = Inr (g x) \<Longrightarrow> generate f xs = (map g xs, None)"
  by (induction xs) auto

lemma generate_comprehension_Inr:
  "comprehension f xs = Inr ys \<Longrightarrow>
   generate (\<lambda>v. case f v of Inl e \<Rightarrow> Inl e | Inr y \<Rightarrow> Inr (Item y)) xs = (map Item ys, None)"
  by (induction xs arbitrary: ys) (auto split: sum.splits)

lemma generate_comprehension_Inl:
  "comprehension f xs = Inl e \<Longrightarrow>
   snd (generate (\<lambda>v. case f v of Inl e \<Rightarrow> Inl e | Inr y \<Rightarrow> Inr (Item y)) xs) = Some e"
  by (induction xs) (auto split: sum.splits prod.splits)

lemma TypedList_getitem_int:
  "i < length (r (key (list self))) \<Longrightarrow>
   TypedList_getitem self r (IntIndex (int i)) =
     (case typecast_item self (Some (r (key (list self)) ! i)) of
        Inl e \<Rightarrow> Inl e
      | Inr y \<Rightarrow> Inr (Item y))"
  by (simp add: TypedList_getitem_def List_getitem_def lindex_nth)

lemma TypedList_iter_elements:
  "TypedList_iter self r =
     generate (\<lambda>v. case typecast_item self (Some v) of Inl e \<Rightarrow> Inl e | Inr y \<Rightarrow> Inr (Item y))
       (r (key (list self)))"
proof -
  let ?ids = "r (key (list self))"
  let ?c = "\<lambda>v. case typecast_item self (Some v) of Inl e \<Rightarrow> Inl e | Inr y \<Rightarrow> Inr (Item y)"
  have "TypedList_iter self r
        = generate (\<lambda>i. TypedList_getitem self r (IntIndex (int i))) [0 ..< length ?ids]"
    by (simp add: TypedList_iter_def List_len_def llen_def)
  also have "\<dots> = generate (\<lambda>i. ?c (?ids ! i)) [0 ..< length ?ids]"
    by (rule generate_cong) (simp add: TypedList_getitem_int)
  also have "\<dots> = generate ?c (map (\<lambda>i. ?ids ! i) [0 ..< length ?ids])"
    by (simp add: generate_map)
  also have "\<dots> = generate ?c ?ids"
    by (simp add: map_nth)
  finally show ?thesis .
qed

lemma ex_iter_abc:
  "TypedList_iter ex_entities store_abc
     = ([Item (Some (Entity ''a'')), Item None, Item (Some (Entity ''c''))], None)"
  by (simp add: TypedList_iter_elements typecast_item_def ex_entities_simps store_abc_k
        ex_model_get)

text \<open>
  C3, as stated, fails in model mode: with the identifiers \<open>a\<close>, \<open>b\<close>, \<open>c\<close> stored and \<open>b\<close>
  unknown to the registry, \<^verbatim>\<open>all()\<close> has two elements and the iteration yields three,
  \<^verbatim>\<open>None\<close> in the middle.
\<close>

theorem iter_is_not_all_counterexample:
  "TypedList_all ex_entities store_abc = Inr [Some (Entity ''a''), Some (Entity ''c'')]
   \<and> TypedList_iter ex_entities store_abc
       = ([Item (Some (Entity ''a'')), Item None, Item (Some (Entity ''c''))], None)
   \<and> fst (TypedList_iter ex_entities store_abc)
       \<noteq> map Item [Some (Entity ''a''), Some (Entity ''c'')]"
  by (simp add: ex_all_abc ex_iter_abc)

text \<open>
  C3, amended. Over a fixed list the iteration reads the length once and then yields
  \<^verbatim>\<open>self[i]\<close> for each index below it, each element read and cast on its own. In plain
  mode it yields the elements of \<^verbatim>\<open>all()\<close> in the same order (and ends with the exception
  \<^verbatim>\<open>all()\<close> raises, when it raises one). In model mode it yields one element for each
  stored identifier, \<^verbatim>\<open>None\<close> where the identifier does not resolve, so it yields the
  elements of \<^verbatim>\<open>all()\<close> when every stored identifier resolves.
\<close>

theorem iter_and_all:
  "TypedList_iter self r =
     generate (\<lambda>i. TypedList_getitem self r (IntIndex (int i)))
       [0 ..< length (r (key (list self)))]
   \<and> (\<not> redisco_model self \<and> TypedList_all self r = Inr ys
        \<longrightarrow> TypedList_iter self r = (map Item ys, None))
   \<and> (\<not> redisco_model self \<and> TypedList_all self r = Inl e
        \<longrightarrow> snd (TypedList_iter self r) = Some e)
   \<and> (redisco_model self
        \<longrightarrow> TypedList_iter self r =
              (map (\<lambda>v. Item (objects_get_by_id (klass self) (Some v))) (r (key (list self))),
               None))
   \<and> (redisco_model self
        \<and> (\<forall>v \<in> set (r (key (list self))). objects_get_by_id (klass self) (Some v) \<noteq> None)
        \<and> TypedList_all self r = Inr ys
        \<longrightarrow> TypedList_iter self r = (map Item ys, None))"
proof -
  let ?ids = "r (key (list self))"
  let ?get = "\<lambda>v. objects_get_by_id (klass self) (Some v)"
  let ?call = "\<lambda>v. construct (klass self) (Some v) (klass_args self) (klass_kwargs self)"
  have bound: "TypedList_iter self r =
     generate (\<lambda>i. TypedList_getitem self r (IntIndex (int i))) [0 ..< length ?ids]"
    by (simp add: TypedList_iter_def List_len_def llen_def)
  have plain: "TypedList_iter self r =
      generate (\<lambda>v. case ?call v of Inl e \<Rightarrow> Inl e | Inr y \<Rightarrow> Inr (Item y)) ?ids"
    if "\<not> redisco_model self"
    using that by (simp add: TypedList_iter_elements typecast_item_def)
  have p1: "TypedList_iter self r = (map Item ys, None)"
    if "\<not> redisco_model self" "TypedList_all self r = Inr ys"
    using that plain by (simp add: TypedList_all_plain generate_comprehension_Inr)
  have p2: "snd (TypedList_iter self r) = Some e"
    if "\<not> redisco_model self" "TypedList_all self r = Inl e"
    using that plain by (simp add: TypedList_all_plain generate_comprehension_Inl)
  have m1: "TypedList_iter self r = (map (\<lambda>v. Item (?get v)) ?ids, None)"
    if "redisco_model self"
    using that by (simp add: TypedList_iter_elements typecast_item_def generate_Inr)
  have m2: "TypedList_iter self r = (map Item ys, None)"
    if "redisco_model self" "\<forall>v \<in> set ?ids. ?get v \<noteq> None" "TypedList_all self r = Inr ys"
  proof -
    have "ys = map ?get ?ids"
      using that by (simp add: TypedList_all_model filter_map_keeps)
    then show ?thesis using m1 [OF that(1)] by (simp add: comp_def)
  qed
  from bound p1 p2 m1 m2 show ?thesis by blast
qed

lemma store_ac_k: "store_ac ''k'' = [''a'', ''c'']"
  by (simp add: store_ac_def)

lemma ex_all_123:
  "TypedList_all ex_numbers store_123 = Inr [Some (Num 1), Some (Num 2), Some (Num 3)]"
  by (simp add: TypedList_all_plain ex_numbers_simps store_123_k ex_int_construct)

lemma ex_all_1x3:
  "TypedList_all ex_numbers store_1x3 = Inl (ValueError ''invalid literal for int()'')"
  by (simp add: TypedList_all_plain ex_numbers_simps store_1x3_k ex_int_construct)

lemma ex_all_ac:
  "TypedList_all ex_entities store_ac = Inr [Some (Entity ''a''), Some (Entity ''c'')]"
  by (simp add: TypedList_all_model ex_entities_simps store_ac_k ex_model_get)

theorem iter_and_all_witness:
  "\<not> redisco_model ex_numbers
   \<and> TypedList_all ex_numbers store_123 = Inr [Some (Num 1), Some (Num 2), Some (Num 3)]
   \<and> TypedList_iter ex_numbers store_123
       = ([Item (Some (Num 1)), Item (Some (Num 2)), Item (Some (Num 3))], None)
   \<and> TypedList_all ex_numbers store_1x3 = Inl (ValueError ''invalid literal for int()'')
   \<and> snd (TypedList_iter ex_numbers store_1x3) = Some (ValueError ''invalid literal for int()'')
   \<and> redisco_model ex_entities
   \<and> TypedList_iter ex_entities store_abc
       = ([Item (Some (Entity ''a'')), Item None, Item (Some (Entity ''c''))], None)
   \<and> objects_get_by_id (klass ex_entities) (Some ''a'') \<noteq> None
   \<and> objects_get_by_id (klass ex_entities) (Some ''c'') \<noteq> None
   \<and> store_ac (key (list ex_entities)) = [''a'', ''c'']
   \<and> TypedList_all ex_entities store_ac = Inr [Some (Entity ''a''), Some (Entity ''c'')]
   \<and> TypedList_iter ex_entities store_ac
       = ([Item (Some (Entity ''a'')), Item (Some (Entity ''c''))], None)"
proof -
  have p: "\<not> redisco_model ex_numbers" by (simp add: ex_numbers_simps)
  have m: "redisco_model ex_entities" by (simp add: ex_entities_simps)
  have g: "objects_get_by_id (klass ex_entities) (Some ''a'') \<noteq> None"
          "objects_get_by_id (klass ex_entities) (Some ''c'') \<noteq> None"
    by (simp_all add: ex_entities_simps ex_model_get)
  have s: "store_ac (key (list ex_entities)) = [''a'', ''c'']"
    by (simp add: ex_entities_simps store_ac_k)
  have r: "\<forall>v \<in> set (store_ac (key (list ex_entities))).
             objects_get_by_id (klass ex_entities) (Some v) \<noteq> None"
    using g by (simp add: s)
  have a: "TypedList_iter ex_numbers store_123
           = (map Item [Some (Num 1), Some (Num 2), Some (Num 3)], None)"
    using iter_and_all [where self = ex_numbers and r = store_123
                          and ys = "[Some (Num 1), Some (Num 2), Some (Num 3)]"]
          p ex_all_123 by blast
  have b: "snd (TypedList_iter ex_numbers store_1x3)
           = Some (ValueError ''invalid literal for int()'')"
    using iter_and_all [where self = ex_numbers and r = store_1x3
                          and e = "ValueError ''invalid literal for int()''"]
          p ex_all_1x3 by blast
  have c: "TypedList_iter ex_entities store_abc
           = (map (\<lambda>v. Item (objects_get_by_id (klass ex_entities) (Some v)))
                (store_abc (key (list ex_entities))), None)"
    using iter_and_all [where self = ex_entities and r = store_abc] m by blast
  have d: "TypedList_iter ex_entities store_ac
           = (map Item [Some (Entity ''a''), Some (Entity ''c'')], None)"
    using iter_and_all [where self = ex_entities and r = store_ac
                          and ys = "[Some (Entity ''a''), Some (Entity ''c'')]"]
          m r ex_all_ac by blast
  from a b c d p m g s ex_all_123 ex_all_1x3 ex_all_ac
  show ?thesis by (simp add: ex_entities_simps store_abc_k ex_model_get)
qed

section \<open>Writes\<close>

lemma List_extend_effect:
  "List_extend encode self r ws = r(key self := r (key self) @ map encode ws)"
  by (induction ws arbitrary: r) (simp_all add: rpush_def)

lemma TypedList_append_effect:
  "typecast_stor getattr_id self v = Inr w \<Longrightarrow>
   TypedList_append getattr_id encode self r v
     = Inr (r(key (list self) := r (key (list self)) @ [encode w]))"
  by (simp add: TypedList_append_def List_append_def rpush_def)

lemma read_last_after_push:
  "TypedList_getitem self (r(key (list self) := r (key (list self)) @ [x]))
     (IntIndex (TypedList_len self (r(key (list self) := r (key (list self)) @ [x])) - 1))
   = (case typecast_item self (Some x) of Inl e \<Rightarrow> Inl e | Inr y \<Rightarrow> Inr (Item y))"
  by (simp add: TypedList_getitem_def List_getitem_def TypedList_len_def List_len_def
        llen_def lindex_def)

text \<open>
  C5. Appending an element and then reading the last position gives the element back:
  in model mode, when the stored identifier resolves to an entity that carries that
  identifier, the read returns that entity, whose identifier is the one of the element
  appended; in plain mode, when the target type casts the stored form of the value back
  to the value, the read returns the value.
\<close>

theorem append_then_read_last:
  "(redisco_model self \<and> getattr_id e = Inr i
      \<and> objects_get_by_id (klass self) (Some (encode i)) = Some e'
      \<and> getattr_id (Some e') = Inr i
    \<longrightarrow> (\<exists>r'. TypedList_append getattr_id encode self r e = Inr r'
              \<and> TypedList_getitem self r' (IntIndex (TypedList_len self r' - 1))
                  = Inr (Item (Some e'))
              \<and> getattr_id (Some e') = getattr_id e))
   \<and> (\<not> redisco_model self
      \<and> construct (klass self) (Some (encode e)) (klass_args self) (klass_kwargs self) = Inr e
    \<longrightarrow> (\<exists>r'. TypedList_append getattr_id encode self r e = Inr r'
              \<and> TypedList_getitem self r' (IntIndex (TypedList_len self r' - 1))
                  = Inr (Item e)))"
proof -
  have model: "\<exists>r'. TypedList_append getattr_id encode self r e = Inr r'
              \<and> TypedList_getitem self r' (IntIndex (TypedList_len self r' - 1))
                  = Inr (Item (Some e'))
              \<and> getattr_id (Some e') = getattr_id e"
    if "redisco_model self" "getattr_id e = Inr i"
       "objects_get_by_id (klass self) (Some (encode i)) = Some e'"
       "getattr_id (Some e') = Inr i"
  proof -
    have "typecast_stor getattr_id self e = Inr i"
      using that by (simp add: typecast_stor_def)
    from TypedList_append_effect [OF this]
    have "TypedList_append getattr_id encode self r e
          = Inr (r(key (list self) := r (key (list self)) @ [encode i]))" .
    moreover have "typecast_item self (Some (encode i)) = Inr (Some e')"
      using that by (simp add: typecast_item_def)
    ultimately show ?thesis
      using that(2,4) by (simp add: read_last_after_push)
  qed
  have plain: "\<exists>r'. TypedList_append getattr_id encode self r e = Inr r'
              \<and> TypedList_getitem self r' (IntIndex (TypedList_len self r' - 1))
                  = Inr (Item e)"
    if "\<not> redisco_model self"
       "construct (klass self) (Some (encode e)) (klass_args self) (klass_kwargs self) = Inr e"
  proof -
    have "typecast_stor getattr_id self e = Inr e"
      using that by (simp add: typecast_stor_def)
    from TypedList_append_effect [OF this]
    have "TypedList_append getattr_id encode self r e
          = Inr (r(key (list self) := r (key (list self)) @ [encode e]))" .
    moreover have "typecast_item self (Some (encode e)) = Inr e"
      using that by (simp add: typecast_item_def)
    ultimately show ?thesis
      by (simp add: read_last_after_push)
  qed
  from model plain show ?thesis by blast
qed

lemma ex_append_4:
  "TypedList_append ex_getattr_id ex_encode ex_numbers store_123 (Some (Num 4))
     = Inr (store_123(''k'' := [''1'', ''2'', ''3'', ''4'']))"
  by (simp add: TypedList_append_def typecast_stor_def List_append_def rpush_def
        ex_numbers_simps store_123_k ex_encode_def)

lemma ex_append_c:
  "TypedList_append ex_getattr_id ex_encode ex_entities store_abc (Some (Entity ''c''))
     = Inr (store_abc(''k'' := [''a'', ''b'', ''c'', ''c'']))"
  by (simp add: TypedList_append_def typecast_stor_def List_append_def rpush_def
        ex_entities_simps store_abc_k ex_encode_def ex_getattr_id_def)

theorem append_then_read_last_witness:
  "redisco_model ex_entities
   \<and> ex_getattr_id (Some (Entity ''c'')) = Inr (Some (Str ''c''))
   \<and> objects_get_by_id (klass ex_entities) (Some (ex_encode (Some (Str ''c''))))
       = Some (Entity ''c'')
   \<and> TypedList_append ex_getattr_id ex_encode ex_entities store_abc (Some (Entity ''c''))
       = Inr (store_abc(''k'' := [''a'', ''b'', ''c'', ''c'']))
   \<and> TypedList_getitem ex_entities (store_abc(''k'' := [''a'', ''b'', ''c'', ''c'']))
        (IntIndex (TypedList_len ex_entities (store_abc(''k'' := [''a'', ''b'', ''c'', ''c''])) - 1))
       = Inr (Item (Some (Entity ''c'')))
   \<and> \<not> redisco_model ex_numbers
   \<and> construct (klass ex_numbers) (Some (ex_encode (Some (Num 4)))) (klass_args ex_numbers)
        (klass_kwargs ex_numbers) = Inr (Some (Num 4))
   \<and> TypedList_append ex_getattr_id ex_encode ex_numbers store_123 (Some (Num 4))
       = Inr (store_123(''k'' := [''1'', ''2'', ''3'', ''4'']))
   \<and> TypedList_getitem ex_numbers (store_123(''k'' := [''1'', ''2'', ''3'', ''4'']))
        (IntIndex (TypedList_len ex_numbers (store_123(''k'' := [''1'', ''2'', ''3'', ''4''])) - 1))
       = Inr (Item (Some (Num 4)))"
proof -
  have m: "redisco_model ex_entities" by (simp add: ex_entities_simps)
  have i: "ex_getattr_id (Some (Entity ''c'')) = Inr (Some (Str ''c''))"
    by (simp add: ex_getattr_id_def)
  have g: "objects_get_by_id (klass ex_entities) (Some (ex_encode (Some (Str ''c''))))
           = Some (Entity ''c'')"
    by (simp add: ex_entities_simps ex_model_get ex_encode_def)
  have p: "\<not> redisco_model ex_numbers" by (simp add: ex_numbers_simps)
  have c: "construct (klass ex_numbers) (Some (ex_encode (Some (Num 4)))) (klass_args ex_numbers)
             (klass_kwargs ex_numbers) = Inr (Some (Num 4))"
    by (simp add: ex_numbers_simps ex_int_construct ex_encode_def)
  have a: "TypedList_getitem ex_entities (store_abc(''k'' := [''a'', ''b'', ''c'', ''c'']))
        (IntIndex (TypedList_len ex_entities (store_abc(''k'' := [''a'', ''b'', ''c'', ''c''])) - 1))
       = Inr (Item (Some (Entity ''c'')))"
    using append_then_read_last
            [where self = ex_entities and getattr_id = ex_getattr_id and encode = ex_encode
               and r = store_abc and e = "Some (Entity ''c'')" and i = "Some (Str ''c'')"
               and e' = "Entity ''c''"]
          m i g by (auto simp: ex_append_c)
  have b: "TypedList_getitem ex_numbers (store_123(''k'' := [''1'', ''2'', ''3'', ''4'']))
        (IntIndex (TypedList_len ex_numbers (store_123(''k'' := [''1'', ''2'', ''3'', ''4''])) - 1))
       = Inr (Item (Some (Num 4)))"
    using append_then_read_last
            [where self = ex_numbers and getattr_id = ex_getattr_id and encode = ex_encode
               and r = store_123 and e = "Some (Num 4)"]
          p c by (auto simp: ex_append_4)
  from a b m i g p c ex_append_c ex_append_4 show ?thesis by simp
qed

text \<open>
  C8. \<^verbatim>\<open>TypedList.extend\<close> applies \<^verbatim>\<open>typecast_stor\<close> to every element (the identity in
  plain mode, the identifier in model mode) and hands the transformed elements, in the
  order given, to \<^verbatim>\<open>List.extend\<close> in one call, which appends them at the tail in that
  order.
\<close>

theorem extend_forwards_transformed:
  "(\<not> redisco_model self
      \<longrightarrow> TypedList_extend getattr_id encode self r vs
            = Inr (List_extend encode (list self) r vs))
   \<and> (redisco_model self \<and> (\<forall>v \<in> set vs. getattr_id v = Inr (f v))
      \<longrightarrow> TypedList_extend getattr_id encode self r vs
            = Inr (List_extend encode (list self) r (map f vs)))
   \<and> List_extend encode (list self) r ws
       = r(key (list self) := r (key (list self)) @ map encode ws)"
proof -
  have plain: "comprehension (typecast_stor getattr_id self) vs = Inr (map (\<lambda>v. v) vs)"
    if "\<not> redisco_model self"
    by (rule comprehension_Inr) (simp add: typecast_stor_def that)
  have model: "comprehension (typecast_stor getattr_id self) vs = Inr (map f vs)"
    if "redisco_model self" "\<forall>v \<in> set vs. getattr_id v = Inr (f v)"
    by (rule comprehension_Inr) (simp add: typecast_stor_def that)
  from plain model show ?thesis
    by (simp add: TypedList_extend_def List_extend_effect)
qed

theorem extend_forwards_transformed_witness:
  "\<not> redisco_model ex_numbers
   \<and> TypedList_extend ex_getattr_id ex_encode ex_numbers store_123 [Some (Num 4), Some (Num 1)]
       = Inr (store_123(''k'' := [''1'', ''2'', ''3'', ''4'', ''1'']))
   \<and> redisco_model ex_entities
   \<and> ex_getattr_id (Some (Entity ''c'')) = Inr (Some (Str ''c''))
   \<and> ex_getattr_id (Some (Entity ''a'')) = Inr (Some (Str ''a''))
   \<and> TypedList_extend ex_getattr_id ex_encode ex_entities store_abc
        [Some (Entity ''c''), Some (Entity ''a'')]
       = Inr (store_abc(''k'' := [''a'', ''b'', ''c'', ''c'', ''a'']))"
proof -
  let ?f = "\<lambda>v. case v of Some (Entity i) \<Rightarrow> Some (Str i) | _ \<Rightarrow> None"
  have p: "\<not> redisco_model ex_numbers" by (simp add: ex_numbers_simps)
  have m: "redisco_model ex_entities" by (simp add: ex_entities_simps)
  have i: "ex_getattr_id (Some (Entity ''c'')) = Inr (Some (Str ''c''))"
          "ex_getattr_id (Some (Entity ''a'')) = Inr (Some (Str ''a''))"
    by (simp_all add: ex_getattr_id_def)
  have h: "\<forall>v \<in> set [Some (Entity ''c''), Some (Entity ''a'')]. ex_getattr_id v = Inr (?f v)"
    using i by simp
  have a: "TypedList_extend ex_getattr_id ex_encode ex_numbers store_123
             [Some (Num 4), Some (Num 1)]
           = Inr (store_123(''k'' := [''1'', ''2'', ''3'', ''4'', ''1'']))"
    using extend_forwards_transformed
            [where self = ex_numbers and getattr_id = ex_getattr_id and encode = ex_encode
               and r = store_123 and vs = "[Some (Num 4), Some (Num 1)]"
               and ws = "[Some (Num 4), Some (Num 1)]"]
          p by (simp add: ex_numbers_simps store_123_k ex_encode_def)
  have b: "TypedList_extend ex_getattr_id ex_encode ex_entities store_abc
             [Some (Entity ''c''), Some (Entity ''a'')]
           = Inr (store_abc(''k'' := [''a'', ''b'', ''c'', ''c'', ''a'']))"
    using extend_forwards_transformed
            [where self = ex_entities and getattr_id = ex_getattr_id and encode = ex_encode
               and r = store_abc and vs = "[Some (Entity ''c''), Some (Entity ''a'')]"
               and f = ?f and ws = "map ?f [Some (Entity ''c''), Some (Entity ''a'')]"]
          m h by (simp add: ex_entities_simps store_abc_k ex_encode_def)
  from a b p m i show ?thesis by simp
qed

section \<open>Slices\<close>

lemma slice_bound_inside:
  "0 \<le> v \<Longrightarrow> v < len \<Longrightarrow> slice_bound len step dflt (Some v) = v"
  by (simp add: slice_bound_def)

lemma slice_indices_inside:
  "0 \<le> a \<Longrightarrow> a \<le> b \<Longrightarrow> b < len \<Longrightarrow> st \<noteq> Some 0 \<Longrightarrow>
   slice_indices (Some a) (Some b) st len
     = Inr (a, b, case st of None \<Rightarrow> 1 | Some s \<Rightarrow> s)"
  by (cases st) (simp_all add: slice_indices_def slice_bound_inside)

lemma take_one_more:
  assumes "0 \<le> a" "a \<le> b" "b < int (length xs)"
  shows "take (nat (b - a + 1)) (drop (nat a) xs)
         = take (nat (b - a)) (drop (nat a) xs) @ [xs ! nat b]"
proof -
  have n: "nat (b - a + 1) = Suc (nat (b - a))" using assms by simp
  have l: "nat (b - a) < length (drop (nat a) xs)" using assms by simp
  have e: "drop (nat a) xs ! nat (b - a) = xs ! nat b"
    using assms by (simp add: nat_diff_distrib')
  show ?thesis using take_Suc_conv_app_nth [OF l] by (simp only: n e)
qed

lemma List_getitem_slice:
  assumes "0 \<le> a" "a \<le> b" "b < List_len c r" "st \<noteq> Some 0"
  shows "List_getitem c r (SliceIndex (Some a) (Some b) st)
         = Inr (Items (take (nat (b - a)) (drop (nat a) (r (key c))) @ [r (key c) ! nat b]))"
proof -
  have len: "b < int (length (r (key c)))"
    using assms(3) by (simp add: List_len_def llen_def)
  have "lrange r (key c) a b
        = take (nat (b - a)) (drop (nat a) (r (key c))) @ [r (key c) ! nat b]"
    using assms(1,2) len by (simp only: lrange_inclusive take_one_more)
  then show ?thesis
    using assms by (simp add: List_getitem_def slice_indices_inside)
qed

text \<open>
  C10, as stated, fails for a step of zero: the step is not ignored, since
  \<^verbatim>\<open>slice.indices\<close> refuses it, while the same bounds with no step read two elements.
\<close>

theorem zero_step_counterexample:
  "List_getitem (list ex_entities) store_abc (SliceIndex (Some 0) (Some 1) None)
     = (Inr (Items [''a'', ''b'']) :: string exc + (raw option, raw) fetched)
   \<and> List_getitem (list ex_entities) store_abc (SliceIndex (Some 0) (Some 1) (Some 0))
     = (Inl (ValueError ''slice step cannot be zero'') :: string exc + (raw option, raw) fetched)"
  by (simp add: List_getitem_def slice_indices_def slice_bound_def List_len_def llen_def
        lrange_def ex_entities_simps store_abc_k)

text \<open>
  C10, amended. For a list of length \<open>n\<close>, bounds \<open>0 \<le> a \<le> b < n\<close> and any step but zero
  (or none), \<^verbatim>\<open>List.__getitem__\<close> passes the bounds that \<^verbatim>\<open>slice.indices\<close> answers to
  \<^verbatim>\<open>LRANGE\<close>, whose stop is inclusive, and drops the step: it returns the elements of the
  Python slice \<open>a:b\<close> followed by the element at \<open>b\<close>. A step of zero raises the
  \<^verbatim>\<open>ValueError\<close> of \<^verbatim>\<open>slice.indices\<close>. A slice read of a \<^verbatim>\<open>TypedList\<close> casts that same
  list with \<^verbatim>\<open>typecast_iter\<close>.
\<close>

theorem slice_read_includes_stop:
  fixes self :: "('x, 'o, 'c) typed_list"
  assumes "0 \<le> a" and "a \<le> b" and "st \<noteq> Some 0"
  shows "(b < List_len c r \<longrightarrow>
            (List_getitem c r (SliceIndex (Some a) (Some b) st)
               :: 'x exc + (raw option, raw) fetched)
              = Inr (Items (take (nat (b - a)) (drop (nat a) (r (key c))) @ [r (key c) ! nat b]))
            \<and> length (take (nat (b - a)) (drop (nat a) (r (key c))) @ [r (key c) ! nat b])
                = Suc (nat (b - a)))
       \<and> (List_getitem c r (SliceIndex lo hi (Some 0)) :: 'x exc + (raw option, raw) fetched)
           = Inl (ValueError ''slice step cannot be zero'')
       \<and> (b < TypedList_len self r \<longrightarrow>
            TypedList_getitem self r (SliceIndex (Some a) (Some b) st)
              = (case typecast_iter self
                        (take (nat (b - a)) (drop (nat a) (r (key (list self))))
                           @ [r (key (list self)) ! nat b]) of
                   Inl e \<Rightarrow> Inl e
                 | Inr ys \<Rightarrow> Inr (Items ys)))"
proof -
  have one: "(List_getitem c r (SliceIndex (Some a) (Some b) st)
                :: 'x exc + (raw option, raw) fetched)
              = Inr (Items (take (nat (b - a)) (drop (nat a) (r (key c))) @ [r (key c) ! nat b]))"
    if "b < List_len c r"
    using List_getitem_slice [OF assms(1,2) that assms(3)] .
  have len: "length (take (nat (b - a)) (drop (nat a) (r (key c))) @ [r (key c) ! nat b])
             = Suc (nat (b - a))"
    if "b < List_len c r"
    using that assms(1,2) by (simp add: List_len_def llen_def)
  have zero: "(List_getitem c r (SliceIndex lo hi (Some 0))
                 :: 'x exc + (raw option, raw) fetched)
              = Inl (ValueError ''slice step cannot be zero'')"
    by (simp add: List_getitem_def slice_indices_def)
  have typed: "TypedList_getitem self r (SliceIndex (Some a) (Some b) st)
              = (case typecast_iter self
                        (take (nat (b - a)) (drop (nat a) (r (key (list self))))
                           @ [r (key (list self)) ! nat b]) of
                   Inl e \<Rightarrow> Inl e
                 | Inr ys \<Rightarrow> Inr (Items ys))"
    if "b < TypedList_len self r"
  proof -
    have "b < List_len (list self) r" using that by (simp add: TypedList_len_def)
    then show ?thesis
      by (simp add: TypedList_getitem_def List_getitem_slice [OF assms(1,2) _ assms(3)])
  qed
  from one len zero typed show ?thesis by blast
qed

theorem slice_read_includes_stop_witness:
  "(0::int) \<le> 0 \<and> (0::int) \<le> 1 \<and> Some (2::int) \<noteq> Some 0
   \<and> 1 < List_len (list ex_entities) store_abc
   \<and> List_getitem (list ex_entities) store_abc (SliceIndex (Some 0) (Some 1) (Some 2))
       = (Inr (Items [''a'', ''b'']) :: string exc + (raw option, raw) fetched)
   \<and> 1 < TypedList_len ex_entities store_abc
   \<and> TypedList_getitem ex_entities store_abc (SliceIndex (Some 0) (Some 1) (Some 2))
       = Inr (Items [Some (Entity ''a'')])"
proof -
  have h: "(0::int) \<le> 0" "(0::int) \<le> 1" "Some (2::int) \<noteq> Some 0" by simp_all
  have l: "1 < List_len (list ex_entities) store_abc"
          "1 < TypedList_len ex_entities store_abc"
    by (simp_all add: TypedList_len_def List_len_def llen_def ex_entities_simps store_abc_k)
  have t: "typecast_iter ex_entities [''a'', ''b''] = Inr [Some (Entity ''a'')]"
    by (simp add: typecast_iter_def ex_entities_simps ex_model_get)
  from slice_read_includes_stop
         [OF h, where c = "list ex_entities" and r = store_abc and self = ex_entities
            and lo = None and hi = None]
       h l t
  show ?thesis by (simp add: ex_entities_simps store_abc_k)
qed
end
